theory Spec2Isabelle
  imports Main "HOL-Library.Word"
begin

section \<open>The image server of common-robotics (image_server.py)\<close>

text \<open>
  The class \<open>ImageServer\<close> keeps the latest camera frame, launches a Flask listener on the
  first frame it is given and serves a viewer page, the encoded frame and a shutdown route.
  The embedding is sequential: every method and every route handler is a function from the
  object's state to a result and the next state. An exception is the left injection of a
  sum. What the code leaves to its libraries is a parameter of the function that uses it:
  the image encoder, the file system, the builtin \<open>float\<close> and \<open>str\<close> of the delay, the
  outcome of the HTTP POST issued by \<open>stop\<close>, and what each listener run does.
\<close>

subsection \<open>Values\<close>

datatype error = ValueError | AttributeError | OSError | ConnectionError | OtherError

type_synonym bytes = "8 word list"

text \<open>A frame is a numpy array: its \<open>shape\<close> and its data.\<close>

datatype frame = Frame (shape: "nat list") (pixels: "nat list")

text \<open>
  The port is \<open>vals[1]\<close>, a string, or the constant \<open>HTTP_PORT_DEFAULT\<close> of the module
  \<open>constants\<close>, whose value the class never inspects.
\<close>

datatype port_val = PortStr string | HTTP_PORT_DEFAULT

datatype url = Url string port_val string

text \<open>The messages the class hands to its logger, one constructor per format string.\<close>

datatype log_entry =
    ErrStartNotCalled
  | ErrStartAlreadyCalled
  | ErrTemplate string error
  | ErrRestarting error
  | InfoServerShutdown
  | InfoRunning string port_val
  | InfoUsingTemplate string
  | InfoStarting string port_val
  | InfoShuttingDown url

text \<open>
  The fields of the object, in the order of \<open>__init__\<close>. The last five fields are not
  attributes: they record the effects of the methods on the world, namely the log, the
  seconds spent in \<open>time.sleep\<close>, the listener threads started (each with the width and
  height its handlers close over), the calls of the encoder and the calls of werkzeug's
  shutdown hook.
\<close>

record 'd server =
  camera_name :: string
  http_host :: string
  http_delay_secs :: 'd
  http_file :: string
  host :: string
  port :: port_val
  current_image :: "frame option"
  ready_to_stop :: bool
  flask_launched :: bool
  started :: bool
  stopped :: bool
  logged :: "log_entry list"
  slept :: nat
  threads :: "(nat \<times> nat) list"
  encode_calls :: nat
  shutdown_hook_calls :: nat

subsection \<open>Strings\<close>

text \<open>\<open>s.split(c)\<close> for a separator of one character: it cuts at every occurrence.\<close>

fun split_chr :: "char \<Rightarrow> string \<Rightarrow> string list" where
  "split_chr c [] = [Nil]"
| "split_chr c (x # xs) =
     (if x = c then Nil # split_chr c xs
      else (case split_chr c xs of
              [] \<Rightarrow> [x # Nil]
            | w # ws \<Rightarrow> (x # w) # ws))"

text \<open>
  \<open>s.replace(old, new)\<close>: every occurrence of \<open>old\<close>, found from the left without overlap,
  becomes \<open>new\<close>; for an empty \<open>old\<close> Python puts \<open>new\<close> before every character and at
  the end.
\<close>

function replace_py :: "string \<Rightarrow> string \<Rightarrow> string \<Rightarrow> string" where
  "replace_py old new s =
     (if old = [] then new @ concat (map (\<lambda>c. c # new) s)
      else if s = [] then []
      else if take (length old) s = old then new @ replace_py old new (drop (length old) s)
      else hd s # replace_py old new (tl s))"
  by pat_completeness auto
termination
  by (relation "measure (\<lambda>(old, new, s). length s)") auto

definition digit_chr :: "nat \<Rightarrow> char" where
  "digit_chr n = ''0123456789'' ! n"

text \<open>\<open>str(n)\<close> for a non-negative integer.\<close>

function str_nat :: "nat \<Rightarrow> string" where
  "str_nat n = (if n < 10 then [digit_chr n] else str_nat (n div 10) @ [digit_chr (n mod 10)])"
  by pat_completeness auto
termination
  by (relation "measure id") auto

subsection \<open>Construction\<close>

text \<open>
  \<^verbatim>\<open>vals = self.__http_host.split(":")\<close>, \<^verbatim>\<open>self.__host = vals[0]\<close>,
  \<^verbatim>\<open>self.__port = vals[1] if len(vals) == 2 else HTTP_PORT_DEFAULT\<close>.
  The logging filter installed when \<open>http_verbose\<close> is false touches no field.
\<close>

definition ImageServer_init :: "string \<Rightarrow> string \<Rightarrow> string \<Rightarrow> 'd \<Rightarrow> 'd server" where
  "ImageServer_init file name hh delay =
     (let vals = split_chr CHR '':'' hh in
      \<lparr> camera_name = name,
        http_host = hh,
        http_delay_secs = delay,
        http_file = file,
        host = vals ! 0,
        port = (if length vals = 2 then PortStr (vals ! 1) else HTTP_PORT_DEFAULT),
        current_image = None,
        ready_to_stop = False,
        flask_launched = False,
        started = False,
        stopped = False,
        logged = [],
        slept = 0,
        threads = [],
        encode_calls = 0,
        shutdown_hook_calls = 0 \<rparr>)"

definition enabled :: "'d server \<Rightarrow> bool" where
  "enabled s = (length (http_host s) > 0)"

subsection \<open>The frame store\<close>

text \<open>
  The getter of \<open>image\<close>: the empty list when no frame is stored, else the encoder's
  output for the stored frame. The encoder (\<open>utils.encode_image\<close> followed by
  \<open>tobytes\<close>) is the parameter \<open>enc\<close>; it is called on every read.
\<close>

definition image_get :: "(frame \<Rightarrow> error + bytes) \<Rightarrow> 'd server \<Rightarrow> (error + bytes) \<times> 'd server" where
  "image_get enc s =
     (case current_image s of
        None \<Rightarrow> (Inr [], s)
      | Some img \<Rightarrow> (enc img, s\<lparr>encode_calls := encode_calls s + 1\<rparr>))"

text \<open>
  \<open>_launch_flask\<close> builds the routes, starts the thread that runs \<open>run_http\<close> and sets the
  flag. The handlers are closures over \<open>width\<close> and \<open>height\<close>; below they are functions
  that take both.
\<close>

definition launch_flask :: "nat \<Rightarrow> nat \<Rightarrow> 'd server \<Rightarrow> 'd server" where
  "launch_flask width height s =
     s\<lparr> threads := threads s @ [(width, height)],
        flask_launched := True,
        logged := logged s @ [InfoRunning (host s) (port s)] \<rparr>"

text \<open>
  The setter of \<open>image\<close>. \<^verbatim>\<open>height, width = image.shape[:2]\<close> raises ValueError unless the
  slice has two elements.
\<close>

definition image_set :: "frame \<Rightarrow> 'd server \<Rightarrow> (error + unit) \<times> 'd server" where
  "image_set img s =
     (if \<not> enabled s then (Inr (), s)
      else if \<not> started s then (Inr (), s\<lparr>logged := logged s @ [ErrStartNotCalled]\<rparr>)
      else
        (case (if \<not> flask_launched s
               then (case take 2 (shape img) of
                       [height, width] \<Rightarrow> Inr (launch_flask width height s)
                     | _ \<Rightarrow> Inl ValueError)
               else Inr s) of
           Inl e \<Rightarrow> (Inl e, s)
         | Inr s1 \<Rightarrow> (Inr (), s1\<lparr>current_image := Some img\<rparr>)))"

subsection \<open>Lifecycle\<close>

definition start :: "'d server \<Rightarrow> 'd server" where
  "start s =
     (if flask_launched s \<or> \<not> enabled s then s
      else if started s then s\<lparr>logged := logged s @ [ErrStartAlreadyCalled]\<rparr>
      else s\<lparr> logged := logged s @ [InfoUsingTemplate (http_file s), InfoStarting (host s) (port s)],
              started := True \<rparr>)"

text \<open>
  The handler of \<open>POST /__shutdown__\<close>. The WSGI environment of the request is a
  dictionary; the handler looks up werkzeug's shutdown hook in it.
\<close>

datatype callable = ShutdownFunc

type_synonym environ = "string \<rightharpoonup> callable"

definition shutdown :: "environ \<Rightarrow> 'd server \<Rightarrow> string \<times> 'd server" where
  "shutdown env s =
     (if \<not> ready_to_stop s then (''Not ready to stop'', s)
      else (case env ''werkzeug.server.shutdown'' of
              None \<Rightarrow> (''Shutting down...'', s)
            | Some shutdown_func \<Rightarrow>
                (''Shutting down...'',
                 s\<lparr>stopped := True, shutdown_hook_calls := shutdown_hook_calls s + 1\<rparr>)))"

text \<open>
  What \<open>requests.post\<close> does in \<open>stop\<close>: it raises (nothing listens at the address, the
  URL is invalid), or the request reaches the shutdown handler of this server, which runs
  with the WSGI environment of that request.
\<close>

datatype post_outcome = PostFailed error | PostHandled environ

definition stop :: "post_outcome \<Rightarrow> 'd server \<Rightarrow> (error + unit) \<times> 'd server" where
  "stop net s =
     (let s1 = s\<lparr>ready_to_stop := True\<rparr>;
          s2 = s1\<lparr>logged := logged s1 @ [InfoShuttingDown (Url (host s1) (port s1) '''')]\<rparr>
      in (case net of
            PostFailed e \<Rightarrow> (Inl e, s2)
          | PostHandled env \<Rightarrow> (Inr (), snd (shutdown env s2))))"

subsection \<open>The viewer page\<close>

definition image_fname :: string where
  "image_fname = ''/image.jpg''"

text \<open>The chain of \<open>replace\<close> calls of \<open>get_page\<close>, on the text of the template.\<close>

definition render :: "string \<Rightarrow> string \<Rightarrow> nat \<Rightarrow> nat \<Rightarrow> string \<Rightarrow> string" where
  "render name delay_str width height html =
     replace_py ''_IMAGE_FNAME_'' image_fname
       (replace_py ''_HEIGHT_'' (str_nat height)
         (replace_py ''_WIDTH_'' (str_nat width)
           (replace_py ''_NAME_'' name
             (replace_py ''_DELAY_SECS_'' delay_str
               (replace_py ''_TITLE_'' (name @ '' camera'') html)))))"

text \<open>
  \<open>get_page\<close>. The delay is computed before the \<open>try\<close>, by the expression
  \<^verbatim>\<open>float(delay) if delay else self.__http_delay_secs\<close> (here \<open>delay_secs_of\<close>), where a
  missing parameter (None) and the empty string are false. \<open>float_py\<close> is the builtin \<open>float\<close>
  on strings, \<open>str_py\<close> the builtin \<open>str\<close> on the delay, \<open>fs\<close> opens and reads a file.
  The \<open>except\<close> branch logs, sleeps one second and falls off the end of the function,
  which returns None.
\<close>

definition delay_secs_of :: "(string \<Rightarrow> error + 'd) \<Rightarrow> string option \<Rightarrow> 'd server \<Rightarrow> error + 'd" where
  "delay_secs_of float_py delay s =
     (case delay of
        None \<Rightarrow> Inr (http_delay_secs s)
      | Some d \<Rightarrow> if d \<noteq> [] then float_py d else Inr (http_delay_secs s))"

definition get_page ::
  "(string \<Rightarrow> error + 'd) \<Rightarrow> ('d \<Rightarrow> string) \<Rightarrow> (string \<Rightarrow> error + string) \<Rightarrow>
   nat \<Rightarrow> nat \<Rightarrow> string option \<Rightarrow> 'd server \<Rightarrow> (error + string option) \<times> 'd server" where
  "get_page float_py str_py fs width height delay s =
     (case delay_secs_of float_py delay s of
        Inl e \<Rightarrow> (Inl e, s)
      | Inr delay_secs \<Rightarrow>
          (case fs (http_file s) of
             Inr html \<Rightarrow>
               (Inr (Some (render (camera_name s) (str_py delay_secs) width height html)), s)
           | Inl e \<Rightarrow>
               (Inr None,
                s\<lparr> logged := logged s @ [ErrTemplate (http_file s) e],
                   slept := slept s + 1 \<rparr>)))"

text \<open>The two routes of the page: \<open>/image\<close> reads the query string, \<open>/image/<delay>\<close> the path.\<close>

definition image_option ::
  "(string \<Rightarrow> error + 'd) \<Rightarrow> ('d \<Rightarrow> string) \<Rightarrow> (string \<Rightarrow> error + string) \<Rightarrow>
   nat \<Rightarrow> nat \<Rightarrow> (string \<rightharpoonup> string) \<Rightarrow> 'd server \<Rightarrow> (error + string option) \<times> 'd server" where
  "image_option float_py str_py fs width height args s =
     get_page float_py str_py fs width height (args ''delay'') s"

definition image_path ::
  "(string \<Rightarrow> error + 'd) \<Rightarrow> ('d \<Rightarrow> string) \<Rightarrow> (string \<Rightarrow> error + string) \<Rightarrow>
   nat \<Rightarrow> nat \<Rightarrow> string \<Rightarrow> 'd server \<Rightarrow> (error + string option) \<times> 'd server" where
  "image_path float_py str_py fs width height delay s =
     get_page float_py str_py fs width height (Some delay) s"

subsection \<open>The serve loop\<close>

text \<open>
  One call of \<open>flask_server.run\<close>: it returns or raises, and while it runs the shutdown
  handler may have set \<open>stopped\<close>.
\<close>

record attempt =
  raised :: "error option"
  stop_seen :: bool

text \<open>
  The body of the loop of \<open>run_http\<close>: the \<open>except\<close> branch logs and sleeps one second, the
  \<open>finally\<close> branch logs in both cases.
\<close>

definition iteration :: "attempt \<Rightarrow> 'd server \<Rightarrow> 'd server" where
  "iteration a s =
     (let s1 = s\<lparr>stopped := stopped s \<or> stop_seen a\<rparr>;
          s2 = (case raised a of
                  None \<Rightarrow> s1
                | Some e \<Rightarrow> s1\<lparr>logged := logged s1 @ [ErrRestarting e], slept := slept s1 + 1\<rparr>)
      in s2\<lparr>logged := logged s2 @ [InfoServerShutdown]\<rparr>)"

text \<open>
  \<^verbatim>\<open>while not self.stopped: ...\<close> with the runs of the listener given by \<open>env\<close>, from
  run number \<open>i\<close> on. The loop may run forever: \<open>fuel\<close> bounds the iterations, and None
  says that the bound was reached with the loop still running.
\<close>

fun run_http :: "(nat \<Rightarrow> attempt) \<Rightarrow> nat \<Rightarrow> nat \<Rightarrow> 'd server \<Rightarrow> 'd server option" where
  "run_http env i 0 s = (if stopped s then Some s else None)"
| "run_http env i (Suc fuel) s =
     (if stopped s then Some s else run_http env (Suc i) fuel (iteration (env i) s))"

text \<open>The state after the first \<open>n\<close> iterations, when none of them ends the loop.\<close>

fun iterations :: "(nat \<Rightarrow> attempt) \<Rightarrow> nat \<Rightarrow> nat \<Rightarrow> 'd server \<Rightarrow> 'd server" where
  "iterations env i 0 s = s"
| "iterations env i (Suc n) s = iterations env (Suc i) n (iteration (env i) s)"

subsection \<open>Runs of the object\<close>

text \<open>
  The calls that change the attributes: the three methods of the embedding pipeline and a
  POST to the shutdown route. A call that raises keeps the state it had reached.
\<close>

datatype event = Start | Publish frame | Stop post_outcome | ShutdownRequest environ

fun is_Publish :: "event \<Rightarrow> bool" where
  "is_Publish (Publish f) = True"
| "is_Publish e = False"

fun step :: "event \<Rightarrow> 'd server \<Rightarrow> 'd server" where
  "step Start s = start s"
| "step (Publish f) s = snd (image_set f s)"
| "step (Stop net) s = snd (stop net s)"
| "step (ShutdownRequest env) s = snd (shutdown env s)"

fun exec :: "event list \<Rightarrow> 'd server \<Rightarrow> 'd server" where
  "exec [] s = s"
| "exec (e # es) s = exec es (step e s)"

text \<open>The frames handed to the setter during a run, in order.\<close>

fun published :: "event list \<Rightarrow> frame list" where
  "published [] = []"
| "published (Publish f # es) = f # published es"
| "published (e # es) = published es"

text \<open>A frame whose first publish can read a height and a width.\<close>

definition readable :: "frame \<Rightarrow> bool" where
  "readable f = (length (shape f) \<ge> 2)"

definition dims :: "frame \<Rightarrow> nat \<times> nat" where
  "dims f = (shape f ! 1, shape f ! 0)"

text \<open>
  Two predicates on states: what every run from construction preserves (a launched listener
  implies a started and enabled server; a stored frame or a listener thread implies the
  launched flag), and the state of a started server before its first frame.
\<close>

definition inv :: "'d server \<Rightarrow> bool" where
  "inv s = ((started s \<and> enabled s \<or> \<not> flask_launched s) \<and>
            (current_image s = None \<or> flask_launched s) \<and>
            (threads s = [] \<or> flask_launched s))"

definition ready :: "'d server \<Rightarrow> bool" where
  "ready s = (enabled s \<and> started s \<and> \<not> flask_launched s \<and> threads s = [])"

subsection \<open>A decimal reading of float and str\<close>

text \<open>
  For running \<open>get_page\<close> on concrete requests: \<open>float\<close> and \<open>str\<close> on unsigned decimal
  literals (\<open>12\<close>, \<open>2.5\<close>, \<open>.5\<close>, \<open>1.\<close>), the value kept as a digit string and the number of
  its fractional digits. A string with any other character is rejected here; Python accepts
  some of them (signs, exponents, surrounding blanks, \<open>inf\<close>, \<open>nan\<close>), none of which occurs
  below.
\<close>

type_synonym dec = "nat \<times> nat"

definition is_digit :: "char \<Rightarrow> bool" where
  "is_digit c = (c \<in> set ''0123456789'')"

definition digit_val :: "char \<Rightarrow> nat" where
  "digit_val c = length (takeWhile (\<lambda>d. d \<noteq> c) ''0123456789'')"

definition nat_of_digits :: "string \<Rightarrow> nat" where
  "nat_of_digits ds = foldl (\<lambda>a c. 10 * a + digit_val c) 0 ds"

fun strip_zeros :: "nat \<Rightarrow> nat \<Rightarrow> dec" where
  "strip_zeros m 0 = (m, 0)"
| "strip_zeros m (Suc k) = (if m mod 10 = 0 then strip_zeros (m div 10) k else (m, Suc k))"

definition float_dec :: "string \<Rightarrow> error + dec" where
  "float_dec s =
     (let ip = takeWhile (\<lambda>c. c \<noteq> CHR ''.'') s;
          fp = drop 1 (dropWhile (\<lambda>c. c \<noteq> CHR ''.'') s)
      in if list_all is_digit ip \<and> list_all is_digit fp \<and> (ip \<noteq> [] \<or> fp \<noteq> [])
         then Inr (strip_zeros (nat_of_digits (ip @ fp)) (length fp))
         else Inl ValueError)"

definition str_dec :: "dec \<Rightarrow> string" where
  "str_dec d =
     (case d of (m, k) \<Rightarrow>
        str_nat (m div 10 ^ k) @ ''.'' @
        (if k = 0 then ''0''
         else (let ds = str_nat (m mod 10 ^ k) in replicate (k - length ds) CHR ''0'' @ ds)))"

subsection \<open>Sample values\<close>

text \<open>
  A server on \<open>127.0.0.1:8080\<close> with a default delay of 0.25 seconds, a disabled server
  (empty host string), three frames (numpy shapes are height, width, channels; the last one
  has a single dimension), an encoder, two file systems, two WSGI environments and two
  listeners, for running the definitions on concrete inputs.
\<close>

definition sample_server :: "dec server" where
  "sample_server = ImageServer_init ''index.html'' ''cam'' ''127.0.0.1:8080'' (25, 2)"

definition disabled_server :: "dec server" where
  "disabled_server = ImageServer_init ''index.html'' ''cam'' [] (25, 2)"

definition frame_100x50 :: frame where
  "frame_100x50 = Frame [50, 100, 3] [7, 7, 7]"

definition frame_80x60 :: frame where
  "frame_80x60 = Frame [60, 80, 3] [9, 9, 9]"

definition frame_flat :: frame where
  "frame_flat = Frame [7] [1, 2, 3]"

definition sample_enc :: "frame \<Rightarrow> error + bytes" where
  "sample_enc f = Inr (map of_nat (shape f @ pixels f))"

definition sample_fs :: "string \<Rightarrow> error + string" where
  "sample_fs path =
     (if path = ''index.html'' then Inr ''_TITLE_: _WIDTH_x_HEIGHT_ every _DELAY_SECS_ s''
      else Inl OSError)"

definition empty_fs :: "string \<Rightarrow> error + string" where
  "empty_fs path = Inl OSError"

definition hook_env :: environ where
  "hook_env = [''werkzeug.server.shutdown'' \<mapsto> ShutdownFunc]"

definition bare_env :: environ where
  "bare_env = Map.empty"

text \<open>
  The sample server after start and a first frame of 100 by 50 pixels, and the same server
  after a call of stop whose POST failed (armed, not stopped).
\<close>

definition running_server :: "dec server" where
  "running_server = exec [Start, Publish frame_100x50] sample_server"

definition armed_server :: "dec server" where
  "armed_server = snd (stop (PostFailed ConnectionError) running_server)"

definition crash_always :: "nat \<Rightarrow> attempt" where
  "crash_always j = \<lparr>raised = Some OtherError, stop_seen = False\<rparr>"

definition stop_on_third :: "nat \<Rightarrow> attempt" where
  "stop_on_third j = \<lparr>raised = (if j < 2 then Some OSError else None), stop_seen = (j = 2)\<rparr>"

section \<open>Properties\<close>

subsection \<open>Splitting the host string\<close>

lemmas sample_defs = sample_server_def disabled_server_def ImageServer_init_def Let_def
  enabled_def start_def frame_100x50_def frame_80x60_def frame_flat_def sample_enc_def
  readable_def dims_def image_set_def image_get_def launch_flask_def stop_def shutdown_def
  hook_env_def bare_env_def

lemma split_chr_shape:
  "split_chr c s =
     takeWhile (\<lambda>x. x \<noteq> c) s #
       (case dropWhile (\<lambda>x. x \<noteq> c) s of [] \<Rightarrow> [] | y # r \<Rightarrow> split_chr c r)"
  by (induction s) (auto split: list.splits)

lemma split_chr_length: "length (split_chr c s) = Suc (count_list s c)"
  by (induction s) (auto split: list.splits)

lemma split_chr_ne: "split_chr c s \<noteq> []"
  by (induction s) (auto split: list.splits)

lemma split_chr_none: "c \<notin> set s \<Longrightarrow> split_chr c s = [s]"
  by (induction s) auto

lemma count_list_0: "count_list s c = 0 \<Longrightarrow> c \<notin> set s"
  by (induction s) (auto split: if_splits)

lemma split_chr_nth0: "split_chr c s ! 0 = takeWhile (\<lambda>x. x \<noteq> c) s"
  by (subst split_chr_shape) simp

lemma split_chr_nth1:
  "count_list s c = 1 \<Longrightarrow> split_chr c s ! 1 = drop 1 (dropWhile (\<lambda>x. x \<noteq> c) s)"
proof (induction s)
  case Nil
  then show ?case by simp
next
  case (Cons x xs)
  show ?case
  proof (cases "x = c")
    case True
    with Cons.prems have "count_list xs c = 0" by simp
    then have "c \<notin> set xs" by (rule count_list_0)
    with True show ?thesis by (simp add: split_chr_none)
  next
    case False
    with Cons.prems have "count_list xs c = 1" by simp
    with Cons.IH False show ?thesis by (auto simp: split_chr_ne split: list.splits)
  qed
qed

text \<open>
  C10. The bind host is the text before the first colon of the configuration string (the
  whole string when it has none). The port is the text after the colon when the string has
  exactly one colon, and the default port in every other case.
\<close>

theorem host_port_parse:
  "host (ImageServer_init file name hh delay) = takeWhile (\<lambda>c. c \<noteq> CHR '':'') hh \<and>
   port (ImageServer_init file name hh delay) =
     (if count_list hh CHR '':'' = 1
      then PortStr (drop 1 (dropWhile (\<lambda>c. c \<noteq> CHR '':'') hh))
      else HTTP_PORT_DEFAULT)"
  using split_chr_nth1 [of hh "CHR '':''"]
  by (simp add: ImageServer_init_def Let_def split_chr_nth0 split_chr_length)

lemma host_port_examples:
  "host (ImageServer_init ''t.html'' ''cam'' ''a:b:c'' (0::nat)) = ''a''"
  "port (ImageServer_init ''t.html'' ''cam'' ''a:b:c'' (0::nat)) = HTTP_PORT_DEFAULT"
  "host (ImageServer_init ''t.html'' ''cam'' ''localhost'' (0::nat)) = ''localhost''"
  "port (ImageServer_init ''t.html'' ''cam'' ''localhost'' (0::nat)) = HTTP_PORT_DEFAULT"
  "host (ImageServer_init ''t.html'' ''cam'' ''127.0.0.1:8080'' (0::nat)) = ''127.0.0.1''"
  "port (ImageServer_init ''t.html'' ''cam'' ''127.0.0.1:8080'' (0::nat)) = PortStr ''8080''"
  by (simp_all add: ImageServer_init_def Let_def)

subsection \<open>The frame store\<close>

lemma step_not_publish_image:
  "\<not> is_Publish e \<Longrightarrow> current_image (step e s) = current_image s"
  by (cases e)
    (auto simp: start_def stop_def shutdown_def Let_def split: option.splits post_outcome.splits)

lemma exec_no_publish_image:
  "\<forall>e\<in>set evs. \<not> is_Publish e \<Longrightarrow> current_image (exec evs s) = current_image s"
  by (induction evs arbitrary: s) (simp_all add: step_not_publish_image)

lemma readable_take2: "readable F \<Longrightarrow> take 2 (shape F) = [shape F ! 0, shape F ! 1]"
  unfolding readable_def
  by (cases "shape F"; cases "tl (shape F)") (auto simp: numeral_2_eq_2)

lemma image_set_stores:
  assumes "enabled s" and "started s" and "flask_launched s \<or> readable F"
  shows "image_set F s =
     (Inr (), (if flask_launched s then s else launch_flask (fst (dims F)) (snd (dims F)) s)
              \<lparr>current_image := Some F\<rparr>)"
  using assms by (auto simp: image_set_def dims_def readable_take2)


lemma init_image: "current_image (ImageServer_init file name hh delay) = None"
  by (simp add: ImageServer_init_def Let_def)



text \<open>
  C2. After any run of calls from construction in which the setter is never called, the
  getter returns the empty sequence (the code returns the empty list) and changes nothing.
\<close>

theorem never_published_empty:
  assumes "\<forall>e\<in>set evs. \<not> is_Publish e"
  shows "image_get enc (exec evs (ImageServer_init file name hh delay)) =
           (Inr [], exec evs (ImageServer_init file name hh delay))"
  using assms by (simp add: image_get_def exec_no_publish_image init_image)

text \<open>A run of start, stop and a further shutdown request on the sample configuration.\<close>

theorem never_published_empty_witness:
  "\<not> is_Publish Start \<and> \<not> is_Publish (Stop (PostHandled hook_env)) \<and>
   \<not> is_Publish (ShutdownRequest bare_env) \<and>
   fst (image_get sample_enc
     (exec [Start, Stop (PostHandled hook_env), ShutdownRequest bare_env]
        (ImageServer_init ''index.html'' ''cam'' ''127.0.0.1:8080'' ((25, 2)::dec)))) = Inr []"
proof -
  have a: "\<forall>e\<in>set [Start, Stop (PostHandled hook_env), ShutdownRequest bare_env]. \<not> is_Publish e"
    by simp
  have "fst (image_get sample_enc
     (exec [Start, Stop (PostHandled hook_env), ShutdownRequest bare_env]
        (ImageServer_init ''index.html'' ''cam'' ''127.0.0.1:8080'' ((25, 2)::dec)))) = Inr []"
    by (simp only: never_published_empty [OF a] fst_conv)
  then show ?thesis by simp
qed

subsection \<open>What every run from construction preserves\<close>

lemma inv_step: "inv s \<Longrightarrow> inv (step e s)"
  by (cases e)
    (auto simp: inv_def enabled_def start_def stop_def shutdown_def image_set_def
        launch_flask_def Let_def
      split: option.splits post_outcome.splits list.splits)

lemma inv_exec: "inv s \<Longrightarrow> inv (exec evs s)"
  by (induction evs arbitrary: s) (simp_all add: inv_step)

lemma inv_init: "inv (ImageServer_init file name hh delay)"
  by (simp add: inv_def ImageServer_init_def Let_def)

text \<open>
  C4. In every state reached from construction, a call of the setter on a server that is
  disabled or not started returns normally and changes no attribute (when the server is
  enabled but not started it logs an error): the stored frame is unchanged, the launched
  flag is false, no listener thread exists, and the getter still returns the empty sequence.
\<close>

theorem publish_noop:
  assumes "s = exec evs (ImageServer_init file name hh delay)"
    and "\<not> enabled s \<or> \<not> started s"
  shows "image_set F s =
           (Inr (), s\<lparr>logged := logged s @ (if enabled s then [ErrStartNotCalled] else [])\<rparr>) \<and>
         current_image (snd (image_set F s)) = current_image s \<and>
         \<not> flask_launched (snd (image_set F s)) \<and>
         threads (snd (image_set F s)) = [] \<and>
         fst (image_get enc (snd (image_set F s))) = Inr []"
proof -
  have "inv s" using assms(1) by (simp add: inv_exec inv_init)
  with assms(2) have "\<not> flask_launched s" "current_image s = None" "threads s = []"
    by (auto simp: inv_def)
  with assms(2) show ?thesis
    by (auto simp: image_set_def image_get_def)
qed

text \<open>The sample server before start, and the disabled server after a call of start.\<close>

theorem publish_noop_witness:
  "\<not> started (exec [] sample_server) \<and>
   \<not> flask_launched (snd (image_set frame_100x50 (exec [] sample_server))) \<and>
   fst (image_get sample_enc (snd (image_set frame_100x50 (exec [] sample_server)))) = Inr [] \<and>
   \<not> enabled (exec [Start] disabled_server) \<and>
   \<not> flask_launched (snd (image_set frame_100x50 (exec [Start] disabled_server))) \<and>
   fst (image_get sample_enc (snd (image_set frame_100x50 (exec [Start] disabled_server)))) = Inr []"
proof -
  have c: "\<not> started (exec [] sample_server)" by (simp add: sample_defs)
  have d: "\<not> enabled (exec [Start] disabled_server)" by (simp add: sample_defs)
  have r1: "\<not> flask_launched (snd (image_set frame_100x50 (exec [] sample_server))) \<and>
      fst (image_get sample_enc (snd (image_set frame_100x50 (exec [] sample_server)))) = Inr []"
    using publish_noop [of "exec [] sample_server" "[]" "''index.html''" "''cam''"
        "''127.0.0.1:8080''" "(25, 2)" frame_100x50 sample_enc] c
    unfolding sample_server_def by blast
  have r2: "\<not> flask_launched (snd (image_set frame_100x50 (exec [Start] disabled_server))) \<and>
      fst (image_get sample_enc (snd (image_set frame_100x50 (exec [Start] disabled_server)))) = Inr []"
    using publish_noop [of "exec [Start] disabled_server" "[Start]" "''index.html''" "''cam''"
        "[]" "(25, 2)" frame_100x50 sample_enc] d
    unfolding disabled_server_def by blast
  from c d r1 r2 show ?thesis by blast
qed

subsection \<open>Bootstrap\<close>

lemma launched_step_threads:
  "flask_launched s \<Longrightarrow> flask_launched (step e s) \<and> threads (step e s) = threads s"
  by (cases e)
    (auto simp: start_def stop_def shutdown_def image_set_def Let_def
      split: option.splits post_outcome.splits list.splits)

lemma launched_exec_threads:
  "flask_launched s \<Longrightarrow> flask_launched (exec evs s) \<and> threads (exec evs s) = threads s"
proof (induction evs arbitrary: s)
  case Nil
  then show ?case by simp
next
  case (Cons e es)
  from Cons.prems have "flask_launched (step e s)" "threads (step e s) = threads s"
    by (simp_all add: launched_step_threads)
  with Cons.IH [of "step e s"] show ?case by simp
qed

lemma ready_step_other: "ready s \<Longrightarrow> \<not> is_Publish e \<Longrightarrow> ready (step e s)"
  by (cases e)
    (auto simp: ready_def enabled_def start_def stop_def shutdown_def Let_def
      split: option.splits post_outcome.splits)

lemma ready_publish_unreadable:
  "ready s \<Longrightarrow> \<not> readable f \<Longrightarrow> image_set f s = (Inl ValueError, s)"
  unfolding ready_def readable_def image_set_def
  by (cases "shape f"; cases "tl (shape f)") (auto split: list.splits)

lemma ready_publish_readable:
  "ready s \<Longrightarrow> readable f \<Longrightarrow>
   flask_launched (snd (image_set f s)) \<and> threads (snd (image_set f s)) = [dims f]"
  by (simp add: ready_def image_set_stores launch_flask_def)

text \<open>
  C5. From a started, enabled server whose listener is not launched yet, after any run of
  calls the listener threads started are: none when no published frame had readable
  dimensions, and otherwise exactly one, whose handlers hold the width and height of the
  first published frame with readable dimensions. The launched flag is set exactly when
  such a frame was published.
\<close>

theorem bootstrap_once:
  assumes "enabled s" and "started s" and "\<not> flask_launched s" and "threads s = []"
  shows "threads (exec evs s) =
           (case find readable (published evs) of None \<Rightarrow> [] | Some f \<Rightarrow> [dims f]) \<and>
         flask_launched (exec evs s) = (\<exists>f\<in>set (published evs). readable f)"
proof -
  have "ready s \<Longrightarrow> ?thesis"
  proof (induction evs arbitrary: s)
    case Nil
    then show ?case by (simp add: ready_def)
  next
    case (Cons e es)
    show ?case
    proof (cases e)
      case (Publish f)
      show ?thesis
      proof (cases "readable f")
        case True
        with Cons.prems have "flask_launched (step e s)" "threads (step e s) = [dims f]"
          using ready_publish_readable [of s f] Publish by simp_all
        with launched_exec_threads [of "step e s" es] True Publish show ?thesis by auto
      next
        case False
        with Cons.prems have "step e s = s"
          using ready_publish_unreadable [of s f] Publish by simp
        with Cons.IH [OF Cons.prems] False Publish show ?thesis by simp
      qed
    next
      case Start
      with Cons.prems have "ready (step e s)" using ready_step_other [of s e] by simp
      with Cons.IH [of "step e s"] Start show ?thesis by simp
    next
      case (Stop n)
      with Cons.prems have "ready (step e s)" using ready_step_other [of s e] by simp
      with Cons.IH [of "step e s"] Stop show ?thesis by simp
    next
      case (ShutdownRequest env)
      with Cons.prems have "ready (step e s)" using ready_step_other [of s e] by simp
      with Cons.IH [of "step e s"] ShutdownRequest show ?thesis by simp
    qed
  qed
  with assms show ?thesis by (simp add: ready_def)
qed

text \<open>
  A one-dimensional frame, then a frame of 100 by 50, a failed stop and a frame of 80 by 60:
  one listener, with width 100 and height 50.
\<close>

theorem bootstrap_once_witness:
  "enabled (start sample_server) \<and> started (start sample_server) \<and>
   \<not> flask_launched (start sample_server) \<and> threads (start sample_server) = [] \<and>
   threads (exec [Publish frame_flat, Publish frame_100x50, Stop (PostFailed ConnectionError),
                  Publish frame_80x60] (start sample_server)) = [(100, 50)]"
proof -
  have a: "enabled (start sample_server)" and b: "started (start sample_server)"
    and c: "\<not> flask_launched (start sample_server)" and d: "threads (start sample_server) = []"
    by (simp_all add: sample_defs)
  from bootstrap_once [OF a b c d, of "[Publish frame_flat, Publish frame_100x50,
      Stop (PostFailed ConnectionError), Publish frame_80x60]"]
  show ?thesis using a b c d
    by (simp add: frame_100x50_def frame_80x60_def frame_flat_def readable_def dims_def)
qed

subsection \<open>The sample values, evaluated\<close>

lemma running_server_eval:
  "running_server =
     \<lparr>camera_name = ''cam'', http_host = ''127.0.0.1:8080'', http_delay_secs = (25, 2),
      http_file = ''index.html'', host = ''127.0.0.1'', port = PortStr ''8080'',
      current_image = Some (Frame [50, 100, 3] [7, 7, 7]), ready_to_stop = False,
      flask_launched = True, started = True, stopped = False,
      logged = [InfoUsingTemplate ''index.html'', InfoStarting ''127.0.0.1'' (PortStr ''8080''),
                InfoRunning ''127.0.0.1'' (PortStr ''8080'')],
      slept = 0, threads = [(100, 50)], encode_calls = 0, shutdown_hook_calls = 0\<rparr>"
  by (simp add: running_server_def sample_defs)

lemma armed_server_eval:
  "armed_server =
     running_server\<lparr>ready_to_stop := True,
       logged := logged running_server @ [InfoShuttingDown (Url ''127.0.0.1'' (PortStr ''8080'') [])]\<rparr>"
  by (simp add: armed_server_def stop_def Let_def running_server_eval)

lemma float_dec_25: "float_dec ''2.5'' = Inr (25, 1)"
  by code_simp

lemma float_dec_abc: "float_dec ''abc'' = Inl ValueError"
  by code_simp

lemma render_25:
  "render ''cam'' (str_dec (25, 1)) 100 50 ''_TITLE_: _WIDTH_x_HEIGHT_ every _DELAY_SECS_ s'' =
     ''cam camera: 100x50 every 2.5 s''"
  by code_simp

lemma render_default:
  "render ''cam'' (str_dec (25, 2)) 100 50 ''_TITLE_: _WIDTH_x_HEIGHT_ every _DELAY_SECS_ s'' =
     ''cam camera: 100x50 every 0.25 s''"
  by code_simp

lemma sample_fs_running:
  "sample_fs (http_file running_server) = Inr ''_TITLE_: _WIDTH_x_HEIGHT_ every _DELAY_SECS_ s''"
  by (simp add: running_server_eval sample_fs_def)

subsection \<open>The viewer page\<close>

text \<open>
  C3, as the code has it. On both routes of the viewer page: when the delay parameter is
  present, not empty and accepted by \<open>float\<close>, the page is rendered with that value; when it
  is absent or empty, the page is rendered with the configured default (in both cases
  provided the template can be read); when it is present, not empty and rejected by
  \<open>float\<close>, the handler raises that error before the template is read, the state is
  unchanged and no page is rendered.
\<close>

theorem get_page_delay:
  "(delay = Some d \<and> d \<noteq> [] \<and> float_py d = Inr v \<and> fs (http_file s) = Inr html \<longrightarrow>
      get_page float_py str_py fs w h delay s =
        (Inr (Some (render (camera_name s) (str_py v) w h html)), s)) \<and>
   ((delay = None \<or> delay = Some []) \<and> fs (http_file s) = Inr html \<longrightarrow>
      get_page float_py str_py fs w h delay s =
        (Inr (Some (render (camera_name s) (str_py (http_delay_secs s)) w h html)), s)) \<and>
   (delay = Some d \<and> d \<noteq> [] \<and> float_py d = Inl e \<longrightarrow>
      get_page float_py str_py fs w h delay s = (Inl e, s)) \<and>
   image_option float_py str_py fs w h args s = get_page float_py str_py fs w h (args ''delay'') s \<and>
   image_path float_py str_py fs w h d s = get_page float_py str_py fs w h (Some d) s"
  by (auto simp: get_page_def delay_secs_of_def image_option_def image_path_def)

text \<open>
  The running sample server: delay 2.5 from the request, no delay and an empty delay (the
  default 0.25), and the delay \<open>abc\<close>.
\<close>

theorem get_page_delay_witness:
  "fst (get_page float_dec str_dec sample_fs 100 50 (Some ''2.5'') running_server) =
     Inr (Some ''cam camera: 100x50 every 2.5 s'') \<and>
   fst (get_page float_dec str_dec sample_fs 100 50 None running_server) =
     Inr (Some ''cam camera: 100x50 every 0.25 s'') \<and>
   fst (get_page float_dec str_dec sample_fs 100 50 (Some []) running_server) =
     Inr (Some ''cam camera: 100x50 every 0.25 s'') \<and>
   get_page float_dec str_dec sample_fs 100 50 (Some ''abc'') running_server =
     (Inl ValueError, running_server)"
proof -
  have nm: "camera_name running_server = ''cam''" "http_delay_secs running_server = (25, 2)"
    by (simp_all add: running_server_eval)
  have a: "get_page float_dec str_dec sample_fs 100 50 (Some ''2.5'') running_server =
      (Inr (Some (render (camera_name running_server) (str_dec (25, 1)) 100 50
         ''_TITLE_: _WIDTH_x_HEIGHT_ every _DELAY_SECS_ s'')), running_server)"
    using get_page_delay [of "Some ''2.5''" "''2.5''" float_dec "(25, 1)" sample_fs running_server
        "''_TITLE_: _WIDTH_x_HEIGHT_ every _DELAY_SECS_ s''" str_dec 100 50]
      float_dec_25 sample_fs_running by simp
  have b: "get_page float_dec str_dec sample_fs 100 50 None running_server =
      (Inr (Some (render (camera_name running_server) (str_dec (http_delay_secs running_server)) 100 50
         ''_TITLE_: _WIDTH_x_HEIGHT_ every _DELAY_SECS_ s'')), running_server)"
    using get_page_delay [of None _ float_dec _ sample_fs running_server
        "''_TITLE_: _WIDTH_x_HEIGHT_ every _DELAY_SECS_ s''" str_dec 100 50]
      sample_fs_running by simp
  have c: "get_page float_dec str_dec sample_fs 100 50 (Some []) running_server =
      (Inr (Some (render (camera_name running_server) (str_dec (http_delay_secs running_server)) 100 50
         ''_TITLE_: _WIDTH_x_HEIGHT_ every _DELAY_SECS_ s'')), running_server)"
    using get_page_delay [of "Some []" _ float_dec _ sample_fs running_server
        "''_TITLE_: _WIDTH_x_HEIGHT_ every _DELAY_SECS_ s''" str_dec 100 50]
      sample_fs_running by simp
  have d: "get_page float_dec str_dec sample_fs 100 50 (Some ''abc'') running_server =
      (Inl ValueError, running_server)"
    using get_page_delay [of "Some ''abc''" "''abc''" float_dec _ sample_fs running_server _ str_dec
        100 50 ValueError] float_dec_abc by simp
  from a b c d show ?thesis
    by (simp only: nm render_25 render_default fst_conv simp_thms)
qed

text \<open>
  C3 as stated fails: for the delay \<open>abc\<close>, on either route, the handler raises ValueError
  instead of rendering the page with the default delay.
\<close>

theorem unparseable_delay_counterexample:
  "float_dec ''abc'' = Inl ValueError \<and>
   fst (image_path float_dec str_dec sample_fs 100 50 ''abc'' running_server) = Inl ValueError \<and>
   fst (image_option float_dec str_dec sample_fs 100 50 [''delay'' \<mapsto> ''abc''] running_server)
     = Inl ValueError \<and>
   fst (image_path float_dec str_dec sample_fs 100 50 ''abc'' running_server) \<noteq>
     Inr (Some (render (camera_name running_server) (str_dec (http_delay_secs running_server))
       100 50 ''_TITLE_: _WIDTH_x_HEIGHT_ every _DELAY_SECS_ s''))"
  by (simp add: float_dec_abc image_path_def image_option_def get_page_def delay_secs_of_def)

text \<open>
  C7. When the delay has been computed and reading the template fails, the page handler
  raises nothing: it logs the failure with the file name and the error, sleeps one second
  and returns None, which Flask answers with an error response. No other field of the state
  changes, so the listener and its loop go on.
\<close>

theorem template_failure:
  assumes "delay_secs_of float_py delay s = Inr v" and "fs (http_file s) = Inl e"
  shows "get_page float_py str_py fs w h delay s =
           (Inr None, s\<lparr>logged := logged s @ [ErrTemplate (http_file s) e], slept := slept s + 1\<rparr>)"
  using assms by (simp add: get_page_def)

text \<open>The running sample server with a file system that has no template.\<close>

theorem template_failure_witness:
  "delay_secs_of float_dec (Some ''2.5'') running_server = Inr (25, 1) \<and>
   empty_fs (http_file running_server) = Inl OSError \<and>
   fst (get_page float_dec str_dec empty_fs 100 50 (Some ''2.5'') running_server) = Inr None \<and>
   slept (snd (get_page float_dec str_dec empty_fs 100 50 (Some ''2.5'') running_server)) = 1 \<and>
   logged (snd (get_page float_dec str_dec empty_fs 100 50 (Some ''2.5'') running_server)) =
     logged running_server @ [ErrTemplate ''index.html'' OSError]"
proof -
  have a: "delay_secs_of float_dec (Some ''2.5'') running_server = Inr (25, 1)"
    by (simp add: delay_secs_of_def float_dec_25)
  have b: "empty_fs (http_file running_server) = Inl OSError" by (simp add: empty_fs_def)
  have c: "http_file running_server = ''index.html''" "slept running_server = 0"
    by (simp_all add: running_server_eval)
  from template_failure [of float_dec "Some ''2.5''" running_server "(25, 1)" empty_fs OSError
      str_dec 100 50] a b c
  show ?thesis by simp
qed

subsection \<open>The shutdown handler\<close>

text \<open>
  C6, as the code has it. When the armed flag is false the handler answers that it is not
  ready and changes nothing. When the flag is true and the request's environment holds
  werkzeug's shutdown hook, it sets the stopped flag, calls the hook and answers with the
  confirmation. When the flag is true and the environment holds no hook, it answers with
  the confirmation and changes nothing.
\<close>

theorem shutdown_handler:
  "(\<not> ready_to_stop s \<longrightarrow> shutdown env s = (''Not ready to stop'', s)) \<and>
   (ready_to_stop s \<and> env ''werkzeug.server.shutdown'' = Some f \<longrightarrow>
      shutdown env s =
        (''Shutting down...'', s\<lparr>stopped := True, shutdown_hook_calls := shutdown_hook_calls s + 1\<rparr>)) \<and>
   (ready_to_stop s \<and> env ''werkzeug.server.shutdown'' = None \<longrightarrow>
      shutdown env s = (''Shutting down...'', s))"
  by (simp add: shutdown_def)

text \<open>The running sample server, not armed and armed, with and without the hook.\<close>

theorem shutdown_handler_witness:
  "fst (shutdown hook_env running_server) = ''Not ready to stop'' \<and>
   snd (shutdown hook_env running_server) = running_server \<and>
   fst (shutdown hook_env armed_server) = ''Shutting down...'' \<and>
   stopped (snd (shutdown hook_env armed_server)) \<and>
   shutdown_hook_calls (snd (shutdown hook_env armed_server)) = 1 \<and>
   shutdown bare_env armed_server = (''Shutting down...'', armed_server)"
proof -
  have a: "\<not> ready_to_stop running_server" by (simp add: running_server_eval)
  have b: "ready_to_stop armed_server" by (simp add: armed_server_eval)
  have c: "hook_env ''werkzeug.server.shutdown'' = Some ShutdownFunc" by (simp add: hook_env_def)
  have d: "bare_env ''werkzeug.server.shutdown'' = None" by (simp add: bare_env_def)
  have e: "shutdown_hook_calls armed_server = 0" by (simp add: armed_server_eval running_server_eval)
  from shutdown_handler [of running_server hook_env] a
  have 1: "shutdown hook_env running_server = (''Not ready to stop'', running_server)" by blast
  from shutdown_handler [of armed_server hook_env ShutdownFunc] b c
  have 2: "shutdown hook_env armed_server =
      (''Shutting down...'',
       armed_server\<lparr>stopped := True, shutdown_hook_calls := shutdown_hook_calls armed_server + 1\<rparr>)"
    by blast
  from shutdown_handler [of armed_server bare_env] b d
  have 3: "shutdown bare_env armed_server = (''Shutting down...'', armed_server)" by blast
  from 1 2 3 e show ?thesis by simp
qed

text \<open>
  C6 as stated fails: on the armed server a request whose environment holds no shutdown
  hook is answered with the confirmation, while the stopped flag stays false and no hook
  is called.
\<close>

theorem shutdown_without_hook_counterexample:
  "ready_to_stop armed_server \<and>
   fst (shutdown bare_env armed_server) = ''Shutting down...'' \<and>
   \<not> stopped (snd (shutdown bare_env armed_server)) \<and>
   shutdown_hook_calls (snd (shutdown bare_env armed_server)) = 0"
  by (simp add: armed_server_eval running_server_eval shutdown_def bare_env_def)

subsection \<open>The serve loop\<close>

lemma iteration_raised:
  "raised a = Some e \<Longrightarrow>
   iteration a s = s\<lparr>stopped := stopped s \<or> stop_seen a,
                      logged := logged s @ [ErrRestarting e, InfoServerShutdown],
                      slept := slept s + 1\<rparr>"
  by (simp add: iteration_def Let_def)

lemma iteration_stopped: "stopped (iteration a s) = (stopped s \<or> stop_seen a)"
  by (simp add: iteration_def Let_def split: option.splits)

lemma run_http_forever:
  "\<not> stopped s \<Longrightarrow> \<forall>j\<ge>i. \<not> stop_seen (env j) \<Longrightarrow> run_http env i fuel s = None"
proof (induction fuel arbitrary: i s)
  case 0
  then show ?case by simp
next
  case (Suc fuel)
  from Suc.prems have "\<not> stopped (iteration (env i) s)"
    by (simp add: iteration_stopped)
  moreover from Suc.prems have "\<forall>j\<ge>Suc i. \<not> stop_seen (env j)" by simp
  ultimately have "run_http env (Suc i) fuel (iteration (env i) s) = None"
    by (rule Suc.IH)
  with Suc.prems show ?case by simp
qed

lemma run_http_exits:
  "\<not> stopped s \<Longrightarrow> stop_seen (env (i + k)) \<Longrightarrow> \<forall>j<k. \<not> stop_seen (env (i + j)) \<Longrightarrow>
   run_http env i (Suc k) s = Some (iterations env i (Suc k) s) \<and>
   stopped (iterations env i (Suc k) s) \<and>
   (\<forall>fuel\<le>k. run_http env i fuel s = None)"
proof (induction k arbitrary: i s)
  case 0
  then show ?case by (simp add: iteration_stopped)
next
  case (Suc k)
  let ?s = "iteration (env i) s"
  from Suc.prems have ns: "\<not> stopped ?s" by (auto simp: iteration_stopped)
  from Suc.prems have a: "stop_seen (env (Suc i + k))" by simp
  have b: "\<forall>j<k. \<not> stop_seen (env (Suc i + j))"
  proof (intro allI impI)
    fix j assume "j < k"
    then have "Suc j < Suc k" by simp
    with Suc.prems(3) have "\<not> stop_seen (env (i + Suc j))" by blast
    then show "\<not> stop_seen (env (Suc i + j))" by simp
  qed
  note IH = Suc.IH [OF ns a b]
  have "\<forall>fuel\<le>Suc k. run_http env i fuel s = None"
  proof (intro allI impI)
    fix fuel assume le: "fuel \<le> Suc k"
    show "run_http env i fuel s = None"
    proof (cases fuel)
      case 0
      with Suc.prems show ?thesis by simp
    next
      case (Suc n)
      with le have "n \<le> k" by simp
      with IH have "run_http env (Suc i) n ?s = None" by blast
      with Suc Suc.prems(1) show ?thesis by simp
    qed
  qed
  with IH Suc.prems(1) show ?case by simp
qed

lemma iterations_slept:
  "\<forall>j\<ge>i. raised (env j) \<noteq> None \<Longrightarrow> slept (iterations env i n s) = slept s + n"
proof (induction n arbitrary: i s)
  case 0
  then show ?case by simp
next
  case (Suc n)
  from Suc.prems obtain e where "raised (env i) = Some e" by auto
  then have "slept (iteration (env i) s) = slept s + 1" by (simp add: iteration_raised)
  moreover from Suc.prems have "\<forall>j\<ge>Suc i. raised (env j) \<noteq> None" by simp
  ultimately show ?case using Suc.IH [of "Suc i" "iteration (env i) s"] by simp
qed

text \<open>
  C8. An iteration whose listener run raises logs the failure, sleeps one second, logs the
  shutdown line and goes back to the test of the stopped flag, with the next run of the
  listener if the flag is still false. With the flag set the loop returns at once. While
  the flag is false and every run raises without the flag being set, the loop returns for
  no bound on its iterations, and has slept one second per iteration. If the flag is first
  set during run number \<open>k\<close> (counted from 0), the loop returns after exactly \<open>k + 1\<close>
  iterations, with the flag set, and not earlier.
\<close>

theorem serve_loop:
  "(\<not> stopped s \<and> raised (env i) = Some e \<longrightarrow>
      run_http env i (Suc fuel) s =
        run_http env (Suc i) fuel
          (s\<lparr>stopped := stop_seen (env i),
             logged := logged s @ [ErrRestarting e, InfoServerShutdown],
             slept := slept s + 1\<rparr>)) \<and>
   (stopped s \<longrightarrow> run_http env i fuel s = Some s) \<and>
   (\<not> stopped s \<and> (\<forall>j\<ge>i. raised (env j) \<noteq> None \<and> \<not> stop_seen (env j)) \<longrightarrow>
      (\<forall>n. run_http env i n s = None \<and> slept (iterations env i n s) = slept s + n)) \<and>
   (\<not> stopped s \<and> stop_seen (env (i + k)) \<and> (\<forall>j<k. \<not> stop_seen (env (i + j))) \<longrightarrow>
      run_http env i (Suc k) s = Some (iterations env i (Suc k) s) \<and>
      stopped (iterations env i (Suc k) s) \<and>
      (\<forall>n\<le>k. run_http env i n s = None))"
proof (intro conjI impI)
  assume "\<not> stopped s \<and> raised (env i) = Some e"
  then show "run_http env i (Suc fuel) s =
        run_http env (Suc i) fuel
          (s\<lparr>stopped := stop_seen (env i),
             logged := logged s @ [ErrRestarting e, InfoServerShutdown],
             slept := slept s + 1\<rparr>)"
    by (simp add: iteration_raised)
next
  assume "stopped s"
  then show "run_http env i fuel s = Some s" by (cases fuel) simp_all
next
  assume a: "\<not> stopped s \<and> (\<forall>j\<ge>i. raised (env j) \<noteq> None \<and> \<not> stop_seen (env j))"
  then have "\<forall>j\<ge>i. \<not> stop_seen (env j)" "\<forall>j\<ge>i. raised (env j) \<noteq> None" by simp_all
  with a show "\<forall>n. run_http env i n s = None \<and> slept (iterations env i n s) = slept s + n"
    by (simp add: run_http_forever iterations_slept)
next
  assume a: "\<not> stopped s \<and> stop_seen (env (i + k)) \<and> (\<forall>j<k. \<not> stop_seen (env (i + j)))"
  then show "run_http env i (Suc k) s = Some (iterations env i (Suc k) s)"
    "stopped (iterations env i (Suc k) s)" "\<forall>n\<le>k. run_http env i n s = None"
    using run_http_exits [of s env i k] by blast+
qed

text \<open>
  A listener that always crashes, a listener that crashes twice and is shut down during its
  third run, and a loop entered with the stopped flag already set.
\<close>

theorem serve_loop_witness:
  "\<not> stopped running_server \<and>
   run_http crash_always 0 4 running_server = None \<and>
   slept (iterations crash_always 0 4 running_server) = 4 \<and>
   stop_seen (stop_on_third 2) \<and>
   run_http stop_on_third 0 2 running_server = None \<and>
   run_http stop_on_third 0 3 running_server = Some (iterations stop_on_third 0 3 running_server) \<and>
   stopped (iterations stop_on_third 0 3 running_server) \<and>
   slept (iterations stop_on_third 0 3 running_server) = 2 \<and>
   run_http crash_always 0 7 (snd (shutdown hook_env armed_server)) =
     Some (snd (shutdown hook_env armed_server))"
proof -
  have ns: "\<not> stopped running_server" "slept running_server = 0"
    by (simp_all add: running_server_eval)
  have ca: "\<forall>j\<ge>0. raised (crash_always j) \<noteq> None \<and> \<not> stop_seen (crash_always j)"
    by (simp add: crash_always_def)
  have s2: "stop_seen (stop_on_third (0 + 2))" by (simp add: stop_on_third_def)
  have s3: "\<forall>j<2. \<not> stop_seen (stop_on_third (0 + j))" by (simp add: stop_on_third_def)
  have st: "stopped (snd (shutdown hook_env armed_server))"
    by (simp add: shutdown_def armed_server_eval hook_env_def)
  from serve_loop [of running_server crash_always 0 _ _ 0] ns ca
  have 1: "run_http crash_always 0 4 running_server = None \<and>
           slept (iterations crash_always 0 4 running_server) = slept running_server + 4"
    by blast
  from serve_loop [of running_server stop_on_third 0 _ _ 2] ns(1) s2 s3
  have 2: "run_http stop_on_third 0 (Suc 2) running_server =
             Some (iterations stop_on_third 0 (Suc 2) running_server) \<and>
           stopped (iterations stop_on_third 0 (Suc 2) running_server) \<and>
           (\<forall>n\<le>2. run_http stop_on_third 0 n running_server = None)"
    by blast
  then have 3: "run_http stop_on_third 0 2 running_server = None" by simp
  have 23: "Suc 2 = 3" by simp
  from serve_loop [of "snd (shutdown hook_env armed_server)" crash_always 0 _ 7] st
  have 4: "run_http crash_always 0 7 (snd (shutdown hook_env armed_server)) =
     Some (snd (shutdown hook_env armed_server))" by blast
  have 5: "slept (iterations stop_on_third 0 3 running_server) = 2"
    by (simp add: numeral_3_eq_3 stop_on_third_def iteration_def Let_def ns)
  have 6: "stop_seen (stop_on_third 2)" by (simp add: stop_on_third_def)
  from 1 2 3 4 5 6 ns show ?thesis by (simp add: 23)
qed

subsection \<open>Stopping\<close>

text \<open>
  C9, as the code has it. The call of stop sets the armed flag, logs, and issues the POST.
  When the POST raises, the error reaches the caller of stop, with the armed flag left set
  and nothing else changed; when the POST is answered, stop returns normally, in the state
  the shutdown handler leaves. Failures are converted where the code catches them: a failed
  template read makes the page handler log the failure, sleep one second and return None,
  and a listener run that raises is logged, followed by a sleep of one second and by the
  next turn of the loop.
\<close>

theorem stop_propagates:
  "stop (PostFailed e) s =
     (Inl e, s\<lparr>ready_to_stop := True,
                logged := logged s @ [InfoShuttingDown (Url (host s) (port s) [])]\<rparr>) \<and>
   stop (PostHandled env) s =
     (Inr (), snd (shutdown env
        (s\<lparr>ready_to_stop := True,
           logged := logged s @ [InfoShuttingDown (Url (host s) (port s) [])]\<rparr>))) \<and>
   ready_to_stop (snd (stop net s)) \<and>
   (delay_secs_of float_py delay s = Inr v \<and> fs (http_file s) = Inl e1 \<longrightarrow>
      get_page float_py str_py fs w h delay s =
        (Inr None,
         s\<lparr>logged := logged s @ [ErrTemplate (http_file s) e1], slept := slept s + 1\<rparr>)) \<and>
   (\<not> stopped s \<and> raised (run i) = Some e2 \<longrightarrow>
      run_http run i (Suc fuel) s =
        run_http run (Suc i) fuel
          (s\<lparr>stopped := stop_seen (run i),
             logged := logged s @ [ErrRestarting e2, InfoServerShutdown],
             slept := slept s + 1\<rparr>))"
proof (intro conjI impI)
  show "stop (PostFailed e) s =
     (Inl e, s\<lparr>ready_to_stop := True,
                logged := logged s @ [InfoShuttingDown (Url (host s) (port s) [])]\<rparr>)"
    by (simp add: stop_def Let_def)
  show "stop (PostHandled env) s =
     (Inr (), snd (shutdown env
        (s\<lparr>ready_to_stop := True,
           logged := logged s @ [InfoShuttingDown (Url (host s) (port s) [])]\<rparr>)))"
    by (simp add: stop_def Let_def)
  show "ready_to_stop (snd (stop net s))"
    by (cases net) (simp_all add: stop_def shutdown_def Let_def split: option.splits)
next
  assume "delay_secs_of float_py delay s = Inr v \<and> fs (http_file s) = Inl e1"
  then show "get_page float_py str_py fs w h delay s =
        (Inr None,
         s\<lparr>logged := logged s @ [ErrTemplate (http_file s) e1], slept := slept s + 1\<rparr>)"
    by (simp add: get_page_def)
next
  assume "\<not> stopped s \<and> raised (run i) = Some e2"
  then show "run_http run i (Suc fuel) s =
        run_http run (Suc i) fuel
          (s\<lparr>stopped := stop_seen (run i),
             logged := logged s @ [ErrRestarting e2, InfoServerShutdown],
             slept := slept s + 1\<rparr>)"
    by (simp add: iteration_raised)
qed

text \<open>
  The running sample server: a POST that fails, a POST that is handled with the hook, a
  page request with no template to read, and a listener run that raises.
\<close>

theorem stop_propagates_witness:
  "stop (PostFailed ConnectionError) running_server = (Inl ConnectionError, armed_server) \<and>
   fst (stop (PostHandled hook_env) running_server) = Inr () \<and>
   stopped (snd (stop (PostHandled hook_env) running_server)) \<and>
   get_page float_dec str_dec empty_fs 100 50 None running_server =
     (Inr None,
      running_server\<lparr>logged := logged running_server @ [ErrTemplate ''index.html'' OSError],
                       slept := 1\<rparr>) \<and>
   run_http crash_always 0 (Suc 0) running_server =
     run_http crash_always (Suc 0) 0
       (running_server\<lparr>stopped := False,
          logged := logged running_server @ [ErrRestarting OtherError, InfoServerShutdown],
          slept := 1\<rparr>)"
proof -
  have a: "delay_secs_of float_dec None running_server = Inr (25, 2)"
    by (simp add: delay_secs_of_def running_server_eval)
  have b: "empty_fs (http_file running_server) = Inl OSError" by (simp add: empty_fs_def)
  have c: "\<not> stopped running_server" by (simp add: running_server_eval)
  have d: "raised (crash_always 0) = Some OtherError" "stop_seen (crash_always 0) = False"
    by (simp_all add: crash_always_def)
  have f: "http_file running_server = ''index.html''" "slept running_server = 0"
    "host running_server = ''127.0.0.1''" "port running_server = PortStr ''8080''"
    by (simp_all add: running_server_eval)
  have g: "stopped (snd (shutdown hook_env armed_server))"
    by (simp add: shutdown_def armed_server_eval hook_env_def)
  note r = stop_propagates [of ConnectionError running_server hook_env
      "PostFailed ConnectionError" float_dec None "(25, 2)" empty_fs OSError str_dec 100 50
      crash_always 0 OtherError 0]
  from r have 1: "stop (PostFailed ConnectionError) running_server = (Inl ConnectionError, armed_server)"
    by (simp add: armed_server_eval f)
  from r have 2: "stop (PostHandled hook_env) running_server =
      (Inr (), snd (shutdown hook_env armed_server))"
    by (simp add: armed_server_eval f)
  from r a b have 3: "get_page float_dec str_dec empty_fs 100 50 None running_server =
     (Inr None,
      running_server\<lparr>logged := logged running_server @ [ErrTemplate ''index.html'' OSError],
                       slept := 1\<rparr>)"
    by (simp add: f)
  from r c d have 4: "run_http crash_always 0 (Suc 0) running_server =
     run_http crash_always (Suc 0) 0
       (running_server\<lparr>stopped := False,
          logged := logged running_server @ [ErrRestarting OtherError, InfoServerShutdown],
          slept := 1\<rparr>)"
    by (simp add: f)
  from 1 2 3 4 g show ?thesis by (simp only: fst_conv snd_conv simp_thms)
qed

text \<open>
  C9 as stated fails: with nothing listening (the sample server before its first frame, or
  the running server when the POST cannot connect), the call of stop raises ConnectionError
  to its caller.
\<close>

theorem stop_unreachable_counterexample:
  "\<not> flask_launched sample_server \<and>
   fst (stop (PostFailed ConnectionError) sample_server) = Inl ConnectionError \<and>
   fst (stop (PostFailed ConnectionError) running_server) = Inl ConnectionError"
  by (simp add: stop_def Let_def sample_server_def ImageServer_init_def)

end
